theory Spec2Isabelle
  imports Main "HOL-Library.Sublist"
begin

section \<open>JavaScript values used by geminiService\<close>

text \<open>
  A thrown value (the \<open>error: any\<close> of a \<open>catch\<close> clause, the reason of a rejected
  promise) is either \<open>undefined\<close> or an error object with a \<open>message\<close> string.
  Messages are strings, as those of \<open>Error\<close> objects are; an object without a
  \<open>message\<close> property behaves in every test of this module like one whose message is
  the empty string.

  Strings are byte strings (UTF-8). \<open>String.prototype.includes\<close> with an ASCII needle is
  the contiguous-sublist test on them, and \<open>toLowerCase\<close> is modelled on the letters
  \<open>A\<close> to \<open>Z\<close>; every other byte is left as it is.
\<close>

datatype thrown = Undefined | Error (message: string)

fun messageOf :: "thrown \<Rightarrow> string" where
  \<comment> \<open>\<open>String(error?.message || "")\<close>\<close>
  "messageOf Undefined = []"
| "messageOf (Error m) = m"

definition js_includes :: "string \<Rightarrow> string \<Rightarrow> bool" where
  "js_includes s needle = sublist needle s"

definition toLowerChar :: "char \<Rightarrow> char" where
  "toLowerChar c =
     (if (65::nat) \<le> of_char c \<and> of_char c \<le> (90::nat)
      then char_of (of_char c + (32::nat)) else c)"

definition toLowerCase :: "string \<Rightarrow> string" where
  "toLowerCase s = map toLowerChar s"

text \<open>An optional string is falsy when it is absent or empty; \<open>a || b\<close> on such values.\<close>

fun falsy :: "string option \<Rightarrow> bool" where
  "falsy None = True"
| "falsy (Some s) = (s = [])"

definition js_or :: "string option \<Rightarrow> string option \<Rightarrow> string option" where
  "js_or a b = (if falsy a then b else a)"

section \<open>Credentials and constants\<close>

record env =
  API_KEY :: "string option"
  GEMINI_API_KEY :: "string option"

definition resolveApiKey :: "string option \<Rightarrow> env \<Rightarrow> string option" where
  "resolveApiKey apiKey e = js_or (js_or apiKey (API_KEY e)) (GEMINI_API_KEY e)"

definition REQUEST_TIMEOUT_MS :: nat where
  "REQUEST_TIMEOUT_MS = 45000"

definition VALIDATION_TIMEOUT_MS :: nat where
  "VALIDATION_TIMEOUT_MS = 15000"

definition PLAN_MODELS :: "string list" where
  "PLAN_MODELS = [''gemini-2.5-pro'', ''gemini-2.5-flash'']"

definition IMAGE_MODELS_pro :: string where
  "IMAGE_MODELS_pro = ''gemini-3-pro-image-preview''"

definition IMAGE_MODELS_fallback :: string where
  "IMAGE_MODELS_fallback = ''gemini-2.5-flash-image''"

section \<open>Promises and the deadline wrapper\<close>

text \<open>
  A promise is described by when and how it settles, in milliseconds after its creation;
  \<open>Pending\<close> never settles. A deadline is a whole number of milliseconds, as the two
  deadlines of the module are.

  \<open>setTimeout\<close> converts its delay to a signed 32-bit integer and takes a negative result
  as 0 (the HTML standard's timer initialisation; the module runs in a browser):
  \<open>timerDelay\<close> is the delay the timer really has. It is the deadline itself for
  every deadline below \<open>2^31\<close>.
\<close>

datatype 'a promise = Fulfils nat 'a | Rejects nat thrown | Pending

definition TIMEOUT_ERROR :: thrown where
  "TIMEOUT_ERROR = Error ''REQUEST_TIMEOUT''"

definition timerDelay :: "nat \<Rightarrow> nat" where
  "timerDelay ms = (let w = ms mod 4294967296 in if w < 2147483648 then w else 0)"









text \<open>
  \<open>withTimeout\<close> is what awaiting the outer promise yields: the outcome of the callback
  that runs first.
\<close>

fun withTimeout :: "'a promise \<Rightarrow> nat \<Rightarrow> thrown + 'a" where
  "withTimeout (Fulfils t v) ms = (if t \<le> timerDelay ms then Inr v else Inl TIMEOUT_ERROR)"
| "withTimeout (Rejects t err) ms = (if t \<le> timerDelay ms then Inl err else Inl TIMEOUT_ERROR)"
| "withTimeout Pending ms = Inl TIMEOUT_ERROR"



section \<open>Error classification\<close>

definition isModelAccessError :: "thrown \<Rightarrow> bool" where
  "isModelAccessError error =
     (let message = messageOf error in
        message = ''REQUEST_TIMEOUT'' \<or>
        js_includes message ''Requested entity was not found'' \<or>
        js_includes (toLowerCase message) ''not found'' \<or>
        js_includes (toLowerCase message) ''permission'' \<or>
        js_includes (toLowerCase message) ''denied'' \<or>
        js_includes (toLowerCase message) ''not authorized'')"

text \<open>
  The specification's wording: a needle occurs in a message, letter case ignored on
  both sides.
\<close>

definition containsIgnoringCase :: "string \<Rightarrow> string \<Rightarrow> bool" where
  "containsIgnoringCase msg needle = sublist (toLowerCase needle) (toLowerCase msg)"

definition isTimeout :: "thrown \<Rightarrow> bool" where
  "isTimeout error = (error = TIMEOUT_ERROR)"

section \<open>The tiered fallback executor\<close>

text \<open>
  A request factory starts one request for a model name; it may read and change the
  state of the outside world \<open>'s\<close>. The loop of \<open>generateWithFallback\<close> is a recursion
  over the remaining tiers that carries \<open>lastError\<close>, the state, and a log of the
  attempts made so far (model name and outcome of the deadline wrapper), which the
  source does not keep and which is used only to count attempts. The parameter \<open>ai\<close>
  is not used by the body, as in the source.
\<close>

record GoogleGenAI =
  clientApiKey :: string

type_synonym ('a, 's) factory = "string \<Rightarrow> 's \<Rightarrow> 'a promise \<times> 's"

type_synonym 'a attempt = "string \<times> (thrown + 'a)"

fun fallbackLoop ::
  "('a, 's) factory \<Rightarrow> string list \<Rightarrow> thrown \<Rightarrow> 's \<Rightarrow> 'a attempt list
     \<Rightarrow> (thrown + 'a) \<times> 's \<times> 'a attempt list" where
  "fallbackLoop requestFactory [] lastError s log = (Inl lastError, s, log)"
| "fallbackLoop requestFactory (model # models) lastError s log =
     (case requestFactory model s of
        (p, s') \<Rightarrow>
          (case withTimeout p REQUEST_TIMEOUT_MS of
             Inr v \<Rightarrow> (Inr v, s', log @ [(model, Inr v)])
           | Inl error \<Rightarrow>
               if \<not> isModelAccessError error
               then (Inl error, s', log @ [(model, Inl error)])
               else fallbackLoop requestFactory models error s' (log @ [(model, Inl error)])))"

definition generateWithFallback ::
  "GoogleGenAI \<Rightarrow> string list \<Rightarrow> ('a, 's) factory \<Rightarrow> 's
     \<Rightarrow> (thrown + 'a) \<times> 's \<times> 'a attempt list" where
  "generateWithFallback ai models requestFactory s =
     fallbackLoop requestFactory models Undefined s []"

section \<open>The generative service\<close>

text \<open>
  The long instruction texts are template literals over a few parameters; a request
  carries the template's name and its parameters instead of the text. A response is
  read through \<open>response.text\<close> (the field \<open>responseText\<close>) and through the parts
  of its first candidate (the empty list when \<open>candidates?.[0]?.content?.parts\<close> is
  absent); \<open>inlineData\<close> of a part is the \<open>data\<close> string of its inline payload.
  The \<open>config\<close> argument of \<open>generateStoryShot\<close> is an \<open>outputConfig\<close>, and
  \<open>clientApiKey\<close> is the \<open>apiKey\<close> a client was constructed with.
\<close>

datatype AppMode = Home | Shorts | WhatsNext | Zooms

datatype ZoomDirection = ZoomIn | ZoomOut

datatype instruction =
    ProbeText
  | CategoryPrompt
  | ShortsPrompt
  | WhatsNextPrompt "string option"
  | ZoomsPrompt ZoomDirection
  | EditPrompt string string
  | ShotPrompt string

datatype contents = TextOnly instruction | ImageAndText "string option" instruction

datatype responseSchema = StringArray | PlanObject

record imageConfig =
  aspectRatio :: string
  imageSize :: "string option"

datatype config = MaxOutputTokens nat | JsonResponse responseSchema | ImageOutput imageConfig

record request =
  model :: string
  contents :: contents
  config :: config

record part =
  inlineData :: "string option"

record response =
  responseText :: "string option"
  parts :: "part list"

datatype json =
    JNull | JBool bool | JNumber int | JString string
  | JArray "json list" | JObject "(string \<times> json) list"

record StoryboardPlan =
  subject :: string
  style :: string
  resolution :: string
  planAspectRatio :: string
  angles :: "(string \<times> string \<times> string) list"

record outputConfig =
  configAspectRatio :: string
  configResolution :: string

record validation =
  valid :: bool
  proAvailable :: bool

text \<open>
  The client object holds the key it was built with. The service answers a request made
  with a key by a promise and may change its own state \<open>'w\<close>. The state threaded through
  the module is the service's state, the requests sent so far (each with the key it
  carried) and the values written by \<open>console.error\<close>.
\<close>

type_synonym 'w service = "string \<Rightarrow> request \<Rightarrow> 'w \<Rightarrow> response promise \<times> 'w"

record 'w net =
  world :: 'w
  sent :: "(string \<times> request) list"
  console :: "thrown list"

definition generateContent ::
  "'w service \<Rightarrow> GoogleGenAI \<Rightarrow> request \<Rightarrow> 'w net \<Rightarrow> response promise \<times> 'w net" where
  "generateContent svc ai req s =
     (case svc (clientApiKey ai) req (world s) of
        (p, w') \<Rightarrow> (p, s\<lparr>world := w', sent := sent s @ [(clientApiKey ai, req)]\<rparr>))"

definition getAI :: "string option \<Rightarrow> env \<Rightarrow> thrown + GoogleGenAI" where
  "getAI apiKey e =
     (case resolveApiKey apiKey e of
        None \<Rightarrow> Inl (Error ''API_KEY_MISSING'')
      | Some resolvedKey \<Rightarrow>
          if resolvedKey = [] then Inl (Error ''API_KEY_MISSING'')
          else Inr \<lparr>clientApiKey = resolvedKey\<rparr>)"

section \<open>Key validation\<close>

definition probeRequest :: "string \<Rightarrow> request" where
  "probeRequest m = \<lparr>model = m, contents = TextOnly ProbeText, config = MaxOutputTokens 1\<rparr>"

definition validateApiKey ::
  "'w service \<Rightarrow> env \<Rightarrow> string option \<Rightarrow> 'w net \<Rightarrow> validation \<times> 'w net" where
  "validateApiKey svc e apiKey s =
     (case resolveApiKey apiKey e of
        None \<Rightarrow> (\<lparr>valid = False, proAvailable = False\<rparr>, s)
      | Some resolvedKey \<Rightarrow>
          if resolvedKey = [] then (\<lparr>valid = False, proAvailable = False\<rparr>, s)
          else
            let ai = \<lparr>clientApiKey = resolvedKey\<rparr> in
            (case generateContent svc ai (probeRequest (PLAN_MODELS ! 0)) s of
               (p1, s1) \<Rightarrow>
                 (case withTimeout p1 VALIDATION_TIMEOUT_MS of
                    Inr r1 \<Rightarrow> (\<lparr>valid = True, proAvailable = True\<rparr>, s1)
                  | Inl error \<Rightarrow>
                      if \<not> isModelAccessError error
                      then (\<lparr>valid = False, proAvailable = False\<rparr>,
                            s1\<lparr>console := console s1 @ [error]\<rparr>)
                      else
                        (case generateContent svc ai (probeRequest (PLAN_MODELS ! 1)) s1 of
                           (p2, s2) \<Rightarrow>
                             (case withTimeout p2 VALIDATION_TIMEOUT_MS of
                                Inr r2 \<Rightarrow> (\<lparr>valid = True, proAvailable = False\<rparr>, s2)
                              | Inl error2 \<Rightarrow>
                                  (\<lparr>valid = False, proAvailable = False\<rparr>,
                                   s2\<lparr>console := console s2 @ [error2]\<rparr>))))))"

section \<open>Plan generation\<close>

fun splitComma :: "string \<Rightarrow> string list" where
  \<comment> \<open>\<open>s.split(',')\<close>\<close>
  "splitComma [] = [[]]"
| "splitComma (c # cs) =
     (if c = CHR '','' then [] # splitComma cs
      else (case splitComma cs of [] \<Rightarrow> [[c]] | w # ws \<Rightarrow> (c # w) # ws))"

definition imageData :: "string \<Rightarrow> string option" where
  \<comment> \<open>\<open>base64Image.split(',')[1]\<close>\<close>
  "imageData base64Image =
     (case splitComma base64Image of w0 # w1 # ws \<Rightarrow> Some w1 | _ \<Rightarrow> None)"

definition DEFAULT_CATEGORIES :: "string list" where
  "DEFAULT_CATEGORIES =
     [[CHR 0xEC, CHR 0x95, CHR 0xA1, CHR 0xEC, CHR 0x85, CHR 0x98],
      [CHR 0xEB, CHR 0x93, CHR 0x9C, CHR 0xEB, CHR 0x9D, CHR 0xBC, CHR 0xEB, CHR 0xA7, CHR 0x88],
      ''SF'',
      [CHR 0xED, CHR 0x8C, CHR 0x90, CHR 0xED, CHR 0x83, CHR 0x80, CHR 0xEC, CHR 0xA7, CHR 0x80],
      [CHR 0xEC, CHR 0x9D, CHR 0xBC, CHR 0xEC, CHR 0x83, CHR 0x81]]"

definition AI_RESPONSE_FAILED :: string where
  "AI_RESPONSE_FAILED =
     ''AI '' @ [CHR 0xEC, CHR 0x9D, CHR 0x91, CHR 0xEB, CHR 0x8B, CHR 0xB5] @ '' '' @
     [CHR 0xEC, CHR 0x8B, CHR 0xA4, CHR 0xED, CHR 0x8C, CHR 0xA8]"

definition UPDATE_FAILED :: string where
  "UPDATE_FAILED =
     [CHR 0xEC, CHR 0x97, CHR 0x85, CHR 0xEB, CHR 0x8D, CHR 0xB0, CHR 0xEC, CHR 0x9D, CHR 0xB4,
      CHR 0xED, CHR 0x8A, CHR 0xB8] @ '' '' @
     [CHR 0xEC, CHR 0x8B, CHR 0xA4, CHR 0xED, CHR 0x8C, CHR 0xA8]"

definition IMAGE_GENERATION_FAILED :: string where
  "IMAGE_GENERATION_FAILED =
     [CHR 0xEC, CHR 0x9D, CHR 0xB4, CHR 0xEB, CHR 0xAF, CHR 0xB8, CHR 0xEC, CHR 0xA7, CHR 0x80] @
     '' '' @ [CHR 0xEC, CHR 0x83, CHR 0x9D, CHR 0xEC, CHR 0x84, CHR 0xB1] @ '' '' @
     [CHR 0xEC, CHR 0x8B, CHR 0xA4, CHR 0xED, CHR 0x8C, CHR 0xA8]"

definition categoryRequest :: "string \<Rightarrow> string \<Rightarrow> request" where
  "categoryRequest base64Image m =
     \<lparr>model = m,
      contents = ImageAndText (imageData base64Image) CategoryPrompt,
      config = JsonResponse StringArray\<rparr>"

definition suggestNarrativeCategories ::
  "'w service \<Rightarrow> env \<Rightarrow> (string \<Rightarrow> thrown + json) \<Rightarrow> string \<Rightarrow> string option \<Rightarrow> 'w net
     \<Rightarrow> (thrown + json) \<times> 'w net" where
  "suggestNarrativeCategories svc e jsonParse base64Image apiKey s =
     (case getAI apiKey e of
        Inl err \<Rightarrow> (Inl err, s)
      | Inr ai \<Rightarrow>
          (case generateWithFallback ai PLAN_MODELS
                  (\<lambda>m. generateContent svc ai (categoryRequest base64Image m)) s of
             (Inl err, s', log) \<Rightarrow> (Inl err, s')
           | (Inr response, s', log) \<Rightarrow>
               (case responseText response of
                  None \<Rightarrow> (Inr (JArray (map JString DEFAULT_CATEGORIES)), s')
                | Some t \<Rightarrow>
                    if t = [] then (Inr (JArray (map JString DEFAULT_CATEGORIES)), s')
                    else (jsonParse t, s'))))"

definition systemInstruction :: "AppMode \<Rightarrow> string option \<Rightarrow> ZoomDirection \<Rightarrow> instruction" where
  "systemInstruction mode category zoomDirection =
     (if mode = WhatsNext then WhatsNextPrompt (if falsy category then None else category)
      else if mode = Zooms then ZoomsPrompt zoomDirection
      else ShortsPrompt)"

definition planRequest ::
  "string \<Rightarrow> AppMode \<Rightarrow> string option \<Rightarrow> ZoomDirection \<Rightarrow> string \<Rightarrow> request" where
  "planRequest base64Image mode category zoomDirection m =
     \<lparr>model = m,
      contents = ImageAndText (imageData base64Image)
                   (systemInstruction mode category zoomDirection),
      config = JsonResponse PlanObject\<rparr>"

definition analyzeImageToStoryboardPlan ::
  "'w service \<Rightarrow> env \<Rightarrow> (string \<Rightarrow> thrown + json) \<Rightarrow> string \<Rightarrow> AppMode \<Rightarrow> string option
     \<Rightarrow> ZoomDirection \<Rightarrow> string option \<Rightarrow> 'w net \<Rightarrow> (thrown + json) \<times> 'w net" where
  "analyzeImageToStoryboardPlan svc e jsonParse base64Image mode category zoomDirection apiKey s =
     (case getAI apiKey e of
        Inl err \<Rightarrow> (Inl err, s)
      | Inr ai \<Rightarrow>
          (case generateWithFallback ai PLAN_MODELS
                  (\<lambda>m. generateContent svc ai
                          (planRequest base64Image mode category zoomDirection m)) s of
             (Inl err, s', log) \<Rightarrow> (Inl err, s')
           | (Inr response, s', log) \<Rightarrow>
               (case responseText response of
                  None \<Rightarrow> (Inl (Error AI_RESPONSE_FAILED), s')
                | Some t \<Rightarrow>
                    if t = [] then (Inl (Error AI_RESPONSE_FAILED), s')
                    else (jsonParse t, s'))))"

definition editRequest :: "StoryboardPlan \<Rightarrow> string \<Rightarrow> request" where
  "editRequest plan m =
     \<lparr>model = m,
      contents = TextOnly (EditPrompt (subject plan) (style plan)),
      config = JsonResponse PlanObject\<rparr>"

definition updatePromptsWithEdits ::
  "'w service \<Rightarrow> env \<Rightarrow> (string \<Rightarrow> thrown + json) \<Rightarrow> StoryboardPlan \<Rightarrow> AppMode
     \<Rightarrow> string option \<Rightarrow> 'w net \<Rightarrow> (thrown + json) \<times> 'w net" where
  "updatePromptsWithEdits svc e jsonParse plan mode apiKey s =
     (case getAI apiKey e of
        Inl err \<Rightarrow> (Inl err, s)
      | Inr ai \<Rightarrow>
          (case generateWithFallback ai PLAN_MODELS
                  (\<lambda>m. generateContent svc ai (editRequest plan m)) s of
             (Inl err, s', log) \<Rightarrow> (Inl err, s')
           | (Inr response, s', log) \<Rightarrow>
               (case responseText response of
                  None \<Rightarrow> (Inl (Error UPDATE_FAILED), s')
                | Some t \<Rightarrow>
                    if t = [] then (Inl (Error UPDATE_FAILED), s')
                    else (jsonParse t, s'))))"

section \<open>Image render\<close>

definition orDefault :: "string \<Rightarrow> string \<Rightarrow> string" where
  \<comment> \<open>\<open>a || b\<close> on two strings\<close>
  "orDefault a b = (if a = [] then b else a)"

definition shotContents :: "string \<Rightarrow> string \<Rightarrow> contents" where
  "shotContents prompt originalImageBase64 =
     ImageAndText (imageData originalImageBase64) (ShotPrompt prompt)"

definition primaryShotRequest :: "string \<Rightarrow> string \<Rightarrow> bool \<Rightarrow> outputConfig \<Rightarrow> request" where
  "primaryShotRequest prompt originalImageBase64 isPro cfg =
     \<lparr>model = (if isPro then IMAGE_MODELS_pro else IMAGE_MODELS_fallback),
      contents = shotContents prompt originalImageBase64,
      config = ImageOutput
        \<lparr>aspectRatio = orDefault (configAspectRatio cfg) ''16:9'',
         imageSize = (if isPro then Some (orDefault (configResolution cfg) ''1K'') else None)\<rparr>\<rparr>"

definition fallbackShotRequest :: "string \<Rightarrow> string \<Rightarrow> outputConfig \<Rightarrow> request" where
  "fallbackShotRequest prompt originalImageBase64 cfg =
     \<lparr>model = IMAGE_MODELS_fallback,
      contents = shotContents prompt originalImageBase64,
      config = ImageOutput
        \<lparr>aspectRatio = orDefault (configAspectRatio cfg) ''16:9'', imageSize = None\<rparr>\<rparr>"

fun firstInlineImage :: "part list \<Rightarrow> string option" where
  \<comment> \<open>the \<open>for (const part of ...)\<close> loop with its \<open>return\<close>\<close>
  "firstInlineImage [] = None"
| "firstInlineImage (p # ps) =
     (case inlineData p of
        Some d \<Rightarrow> Some (''data:image/png;base64,'' @ d)
      | None \<Rightarrow> firstInlineImage ps)"

definition TYPE_ERROR :: thrown where
  \<comment> \<open>what reading \<open>error.message\<close> of \<open>undefined\<close> throws; the text is the engine's\<close>
  "TYPE_ERROR =
     Error (''Cannot read properties of undefined (reading '' @ [CHR 0x27] @ ''message'' @
            [CHR 0x27] @ '')'')"

definition rethrowClassified :: "string \<Rightarrow> thrown" where
  \<comment> \<open>the last two statements of the \<open>catch\<close> block, for an error object with message \<open>msg\<close>\<close>
  "rethrowClassified msg =
     (if js_includes msg ''Requested entity was not found'' then Error ''API_KEY_INVALID''
      else Error msg)"

definition generateStoryShot ::
  "'w service \<Rightarrow> env \<Rightarrow> string \<Rightarrow> string \<Rightarrow> bool \<Rightarrow> outputConfig \<Rightarrow> string option \<Rightarrow> 'w net
     \<Rightarrow> (thrown + string) \<times> 'w net" where
  "generateStoryShot svc e prompt originalImageBase64 isPro cfg apiKey s =
     (case resolveApiKey apiKey e of
        None \<Rightarrow> (Inl (Error ''API_KEY_MISSING''), s)
      | Some resolvedKey \<Rightarrow>
          if resolvedKey = [] then (Inl (Error ''API_KEY_MISSING''), s)
          else
            let ai = \<lparr>clientApiKey = resolvedKey\<rparr> in
            (case generateContent svc ai
                    (primaryShotRequest prompt originalImageBase64 isPro cfg) s of
               (p1, s1) \<Rightarrow>
                 (case withTimeout p1 REQUEST_TIMEOUT_MS of
                    Inr response \<Rightarrow>
                      (case firstInlineImage (parts response) of
                         Some url \<Rightarrow> (Inr url, s1)
                       | None \<Rightarrow> (Inl (Error IMAGE_GENERATION_FAILED), s1))
                  | Inl Undefined \<Rightarrow> (Inl TYPE_ERROR, s1)
                  | Inl (Error msg) \<Rightarrow>
                      if isPro \<and> (isModelAccessError (Error msg) \<or> msg = ''REQUEST_TIMEOUT'')
                      then
                        (case generateContent svc ai
                                (fallbackShotRequest prompt originalImageBase64 cfg) s1 of
                           (p2, s2) \<Rightarrow>
                             (case withTimeout p2 REQUEST_TIMEOUT_MS of
                                Inl error2 \<Rightarrow> (Inl error2, s2)
                              | Inr fallbackResponse \<Rightarrow>
                                  (case firstInlineImage (parts fallbackResponse) of
                                     Some url \<Rightarrow> (Inr url, s2)
                                   | None \<Rightarrow> (Inl (rethrowClassified msg), s2))))
                      else (Inl (rethrowClassified msg), s1))))"

section \<open>Sample inputs\<close>

text \<open>
  A scripted service answers the requests it receives with the promises of a list, in
  order, whatever the request; once the list is used up its promises stay pending.
\<close>

definition scriptedService :: "(response promise list) service" where
  "scriptedService k req w = (case w of [] \<Rightarrow> (Pending, []) | p # ps \<Rightarrow> (p, ps))"

definition demoNet :: "response promise list \<Rightarrow> response promise list net" where
  "demoNet script = \<lparr>world = script, sent = [], console = []\<rparr>"

definition noDefaultEnv :: env where
  "noDefaultEnv = \<lparr>API_KEY = None, GEMINI_API_KEY = None\<rparr>"

definition defaultEnv :: env where
  "defaultEnv = \<lparr>API_KEY = None, GEMINI_API_KEY = Some ''env-key''\<rparr>"

definition demoConfig :: outputConfig where
  "demoConfig = \<lparr>configAspectRatio = ''16:9'', configResolution = ''2K''\<rparr>"

definition demoImage :: string where
  "demoImage = ''data:image/jpeg;base64,AAAA''"

definition demoParse :: "string \<Rightarrow> thrown + json" where
  "demoParse t = Inr (JString t)"

definition demoPlan :: StoryboardPlan where
  "demoPlan =
     \<lparr>subject = ''a woman in a white linen shirt'', style = ''warm evening light'',
      resolution = ''1K'', planAspectRatio = ''16:9'', angles = []\<rparr>"

definition imageResponse :: response where
  "imageResponse =
     \<lparr>responseText = None, parts = [\<lparr>inlineData = None\<rparr>, \<lparr>inlineData = Some ''QUJD''\<rparr>]\<rparr>"

definition emptyResponse :: response where
  "emptyResponse = \<lparr>responseText = None, parts = []\<rparr>"

definition demoFactory :: "(nat, nat) factory" where
  \<comment> \<open>a factory with a call counter: access refused, then quota exceeded, then success\<close>
  "demoFactory m n =
     (if n = 0 then (Rejects 120 (Error ''permission denied''), Suc n)
      else if n = 1 then (Rejects 80 (Error ''quota exceeded''), Suc n)
      else (Fulfils 5 n, Suc n))"

section \<open>Facts about the timer delay, strings and sample messages\<close>

lemma timerDelay_in_range [simp]: "ms < 2147483648 \<Longrightarrow> timerDelay ms = ms"
  by (simp add: timerDelay_def)

lemma toLowerCase_needles:
  "toLowerCase ''not found'' = ''not found''"
  "toLowerCase ''entity not found'' = ''entity not found''"
  "toLowerCase ''permission'' = ''permission''"
  "toLowerCase ''denied'' = ''denied''"
  "toLowerCase ''not authorized'' = ''not authorized''"
  by code_simp+

lemma sublist_toLowerCase:
  "sublist xs ys \<Longrightarrow> sublist (toLowerCase xs) (toLowerCase ys)"
  unfolding toLowerCase_def by (rule map_mono_sublist)

lemma requested_entity_subsumed:
  assumes "js_includes m ''Requested entity was not found''"
  shows "js_includes (toLowerCase m) ''not found''"
proof -
  have "sublist ''not found'' ''Requested entity was not found''"
    by code_simp
  moreover from assms have "sublist ''Requested entity was not found'' m"
    by (simp add: js_includes_def)
  ultimately have "sublist ''not found'' m"
    by (rule sublist_order.order.trans)
  then have "sublist (toLowerCase ''not found'') (toLowerCase m)"
    by (rule sublist_toLowerCase)
  then show ?thesis
    by (simp add: js_includes_def toLowerCase_needles)
qed

lemma entity_not_found_subsumed:
  assumes "containsIgnoringCase m ''entity not found''"
  shows "containsIgnoringCase m ''not found''"
proof -
  have "sublist ''not found'' ''entity not found''"
    by code_simp
  with assms show ?thesis
    unfolding containsIgnoringCase_def toLowerCase_needles
    using sublist_order.order.trans by blast
qed

lemma containsIgnoringCase_needle:
  "containsIgnoringCase m ''not found'' = js_includes (toLowerCase m) ''not found''"
  "containsIgnoringCase m ''permission'' = js_includes (toLowerCase m) ''permission''"
  "containsIgnoringCase m ''denied'' = js_includes (toLowerCase m) ''denied''"
  "containsIgnoringCase m ''not authorized'' = js_includes (toLowerCase m) ''not authorized''"
  by (simp_all add: containsIgnoringCase_def js_includes_def toLowerCase_needles)

lemma isTimeout_message: "isTimeout e = (messageOf e = ''REQUEST_TIMEOUT'')"
  by (cases e) (simp_all add: isTimeout_def TIMEOUT_ERROR_def)

lemma demo_messages:
  "isModelAccessError (Error ''permission denied'')"
  "\<not> isModelAccessError (Error ''quota exceeded'')"
  "isModelAccessError (Error ''Requested entity was not found.'')"
  "isModelAccessError (Error ''entity was not found'')"
  "js_includes ''entity was not found'' ''entity was not found''"
  "js_includes ''Requested entity was not found.'' ''entity was not found''"
  "js_includes ''Requested entity was not found.'' ''Requested entity was not found''"
  "\<not> js_includes ''entity was not found'' ''Requested entity was not found''"
  by code_simp+

lemmas demo_defs = scriptedService_def demoNet_def noDefaultEnv_def defaultEnv_def
  demoConfig_def demoImage_def generateContent_def resolveApiKey_def js_or_def
  REQUEST_TIMEOUT_MS_def VALIDATION_TIMEOUT_MS_def TIMEOUT_ERROR_def

section \<open>The classifier\<close>

text \<open>
  Claim C2. For every thrown value, \<open>isModelAccessError\<close> holds if and only if the value
  is the timeout error or its message contains one of \<open>entity not found\<close>,
  \<open>not found\<close>, \<open>permission\<close>, \<open>denied\<close>, \<open>not authorized\<close>, letter case ignored.
  The case-sensitive test for \<open>Requested entity was not found\<close> of the source adds
  nothing to the test for \<open>not found\<close>.
\<close>

theorem isModelAccessError_iff:
  "isModelAccessError e \<longleftrightarrow>
     isTimeout e \<or>
     containsIgnoringCase (messageOf e) ''entity not found'' \<or>
     containsIgnoringCase (messageOf e) ''not found'' \<or>
     containsIgnoringCase (messageOf e) ''permission'' \<or>
     containsIgnoringCase (messageOf e) ''denied'' \<or>
     containsIgnoringCase (messageOf e) ''not authorized''"
  unfolding isModelAccessError_def Let_def isTimeout_message containsIgnoringCase_needle
  using requested_entity_subsumed [of "messageOf e"]
    entity_not_found_subsumed [of "messageOf e"]
  unfolding containsIgnoringCase_needle
  by blast

theorem isModelAccessError_iff_witness:
  "isModelAccessError (Error ''Permission DENIED for model'') \<and>
   containsIgnoringCase ''Permission DENIED for model'' ''denied'' \<and>
   \<not> isModelAccessError (Error ''quota exceeded'') \<and>
   \<not> isTimeout (Error ''quota exceeded'')"
  using isModelAccessError_iff [of "Error ''Permission DENIED for model''"]
    isModelAccessError_iff [of "Error ''quota exceeded''"]
  by code_simp

section \<open>The deadline wrapper\<close>





section \<open>The tiered fallback executor: hard stop\<close>

lemma fallbackLoop_log:
  assumes "fallbackLoop f ms lastError s log = (r, s', log')"
  shows "\<exists>new. log' = log @ new \<and> map fst new = take (length new) ms \<and>
           (\<forall>i m e. i < length new \<and> new ! i = (m, Inl e) \<and> \<not> isModelAccessError e
              \<longrightarrow> r = Inl e \<and> length new = Suc i)"
  using assms
proof (induction ms arbitrary: lastError s log)
  case Nil
  then show ?case by simp
next
  case (Cons tier tiers)
  obtain p s1 where f: "f tier s = (p, s1)"
    by (cases "f tier s")
  show ?case
  proof (cases "withTimeout p REQUEST_TIMEOUT_MS")
    case (Inr v)
    with Cons.prems f have "r = Inr v" "log' = log @ [(tier, Inr v)]"
      by auto
    then show ?thesis by simp
  next
    case (Inl error)
    show ?thesis
    proof (cases "isModelAccessError error")
      case False
      with Cons.prems f Inl have "r = Inl error" "log' = log @ [(tier, Inl error)]"
        by auto
      then show ?thesis by simp
    next
      case True
      with Cons.prems f Inl
      have "fallbackLoop f tiers error s1 (log @ [(tier, Inl error)]) = (r, s', log')"
        by simp
      from Cons.IH [OF this] obtain new where
        new: "log' = (log @ [(tier, Inl error)]) @ new"
          "map fst new = take (length new) tiers"
          "\<forall>i m e. i < length new \<and> new ! i = (m, Inl e) \<and> \<not> isModelAccessError e
              \<longrightarrow> r = Inl e \<and> length new = Suc i"
        by blast
      let ?new = "(tier, Inl error) # new"
      have "log' = log @ ?new" using new(1) by simp
      moreover have "map fst ?new = take (length ?new) (tier # tiers)"
        using new(2) by simp
      moreover have "\<forall>i m e. i < length ?new \<and> ?new ! i = (m, Inl e) \<and> \<not> isModelAccessError e
              \<longrightarrow> r = Inl e \<and> length ?new = Suc i"
      proof (intro allI impI)
        fix i m e
        assume a: "i < length ?new \<and> ?new ! i = (m, Inl e) \<and> \<not> isModelAccessError e"
        show "r = Inl e \<and> length ?new = Suc i"
        proof (cases i)
          case 0
          with a True show ?thesis by simp
        next
          case (Suc j)
          with a have "j < length new \<and> new ! j = (m, Inl e) \<and> \<not> isModelAccessError e"
            by simp
          with new(3) have "r = Inl e \<and> length new = Suc j" by blast
          with Suc show ?thesis by simp
        qed
      qed
      ultimately show ?thesis by blast
    qed
  qed
qed

text \<open>
  Claim C1. For every tier list and every request factory: when the attempt against a
  tier (the \<open>i\<close>-th attempt of the run) fails with an error that is not access-class,
  \<open>generateWithFallback\<close> throws exactly that error, that attempt is the last one, and
  the attempts made are those against the first \<open>i + 1\<close> tiers, in order: no later
  tier is tried.
\<close>

theorem generateWithFallback_hard_stop:
  assumes "generateWithFallback ai models requestFactory s = (r, s', log)"
    and "i < length log"
    and "log ! i = (tier, Inl error)"
    and "\<not> isModelAccessError error"
  shows "r = Inl error \<and> length log = Suc i \<and> map fst log = take (Suc i) models"
proof -
  from assms(1) obtain new where
    new: "log = [] @ new" "map fst new = take (length new) models"
      "\<forall>i m e. i < length new \<and> new ! i = (m, Inl e) \<and> \<not> isModelAccessError e
              \<longrightarrow> r = Inl e \<and> length new = Suc i"
    unfolding generateWithFallback_def by (blast dest: fallbackLoop_log)
  from new(1) have "new = log" by simp
  with new(3) assms(2-4) have "r = Inl error \<and> length log = Suc i" by blast
  with new(2) \<open>new = log\<close> show ?thesis by simp
qed

theorem generateWithFallback_hard_stop_witness:
  "generateWithFallback \<lparr>clientApiKey = ''user-key''\<rparr>
       [''gemini-2.5-pro'', ''gemini-2.5-flash'', ''other''] demoFactory 0
     = (Inl (Error ''quota exceeded''), 2,
        [(''gemini-2.5-pro'', Inl (Error ''permission denied'')),
         (''gemini-2.5-flash'', Inl (Error ''quota exceeded''))]) \<and>
   \<not> isModelAccessError (Error ''quota exceeded'') \<and>
   map fst [(''gemini-2.5-pro'', Inl (Error ''permission denied'') :: thrown + nat),
         (''gemini-2.5-flash'', Inl (Error ''quota exceeded''))]
     = take (Suc 1) [''gemini-2.5-pro'', ''gemini-2.5-flash'', ''other'']"
proof -
  have run: "generateWithFallback \<lparr>clientApiKey = ''user-key''\<rparr>
       [''gemini-2.5-pro'', ''gemini-2.5-flash'', ''other''] demoFactory 0
     = (Inl (Error ''quota exceeded''), 2,
        [(''gemini-2.5-pro'', Inl (Error ''permission denied'')),
         (''gemini-2.5-flash'', Inl (Error ''quota exceeded''))])"
    by (simp add: generateWithFallback_def demoFactory_def REQUEST_TIMEOUT_MS_def demo_messages)
  have hard: "\<not> isModelAccessError (Error ''quota exceeded'')"
    by (rule demo_messages)
  have len: "(1::nat) < length [(''gemini-2.5-pro'', Inl (Error ''permission denied'') :: thrown + nat),
         (''gemini-2.5-flash'', Inl (Error ''quota exceeded''))]"
    by simp
  have nth: "[(''gemini-2.5-pro'', Inl (Error ''permission denied'') :: thrown + nat),
         (''gemini-2.5-flash'', Inl (Error ''quota exceeded''))] ! 1
      = (''gemini-2.5-flash'', Inl (Error ''quota exceeded''))"
    by simp
  from generateWithFallback_hard_stop [OF run len nth hard] run hard
  show ?thesis by blast
qed

section \<open>Key validation\<close>

text \<open>
  Claim C5. With no explicit credential and no default credential in the environment
  (each of the two environment keys absent or empty), \<open>validateApiKey\<close> returns
  \<open>{valid: false, proAvailable: false}\<close> and leaves the state as it was: no request
  is sent.
\<close>

theorem validateApiKey_no_credential:
  assumes "falsy (API_KEY e)" and "falsy (GEMINI_API_KEY e)"
  shows "validateApiKey svc e None s = (\<lparr>valid = False, proAvailable = False\<rparr>, s)"
  using assms
  by (cases "GEMINI_API_KEY e") (simp_all add: validateApiKey_def resolveApiKey_def js_or_def)

theorem validateApiKey_no_credential_witness:
  "falsy (API_KEY noDefaultEnv) \<and> falsy (GEMINI_API_KEY noDefaultEnv) \<and>
   validateApiKey scriptedService noDefaultEnv None (demoNet [Fulfils 10 emptyResponse])
     = (\<lparr>valid = False, proAvailable = False\<rparr>, demoNet [Fulfils 10 emptyResponse]) \<and>
   sent (snd (validateApiKey scriptedService noDefaultEnv None
                (demoNet [Fulfils 10 emptyResponse]))) = []"
proof -
  have a: "falsy (API_KEY noDefaultEnv)" and b: "falsy (GEMINI_API_KEY noDefaultEnv)"
    by (simp_all add: noDefaultEnv_def)
  from validateApiKey_no_credential [OF a b, of scriptedService "demoNet [Fulfils 10 emptyResponse]"]
    a b
  show ?thesis by (simp add: demoNet_def)
qed

text \<open>
  Claim C6. For every resolvable credential: when the probe of the premium text tier
  fails with an access-class error and the probe of the standard text tier then succeeds,
  \<open>validateApiKey\<close> returns \<open>{valid: true, proAvailable: false}\<close>.
\<close>

theorem validateApiKey_tier_fallback:
  assumes "resolveApiKey apiKey e = Some k" and "k \<noteq> []"
    and "generateContent svc \<lparr>clientApiKey = k\<rparr> (probeRequest (PLAN_MODELS ! 0)) s = (p1, s1)"
    and "withTimeout p1 VALIDATION_TIMEOUT_MS = Inl error"
    and "isModelAccessError error"
    and "generateContent svc \<lparr>clientApiKey = k\<rparr> (probeRequest (PLAN_MODELS ! 1)) s1 = (p2, s2)"
    and "withTimeout p2 VALIDATION_TIMEOUT_MS = Inr r"
  shows "validateApiKey svc e apiKey s = (\<lparr>valid = True, proAvailable = False\<rparr>, s2)"
  using assms by (simp add: validateApiKey_def)

theorem validateApiKey_tier_fallback_witness:
  "isModelAccessError (Error ''permission denied'') \<and>
   fst (validateApiKey scriptedService noDefaultEnv (Some ''user-key'')
          (demoNet [Rejects 40 (Error ''permission denied''), Fulfils 30 emptyResponse]))
     = \<lparr>valid = True, proAvailable = False\<rparr>"
proof -
  let ?ai = "\<lparr>clientApiKey = ''user-key''\<rparr>"
  let ?s = "demoNet [Rejects 40 (Error ''permission denied''), Fulfils 30 emptyResponse]"
  let ?r1 = "probeRequest (PLAN_MODELS ! 0)"
  let ?r2 = "probeRequest (PLAN_MODELS ! 1)"
  let ?s1 = "snd (generateContent scriptedService ?ai ?r1 ?s)"
  let ?s2 = "snd (generateContent scriptedService ?ai ?r2 ?s1)"
  have k: "resolveApiKey (Some ''user-key'') noDefaultEnv = Some ''user-key''" "''user-key'' \<noteq> []"
    by (simp_all add: demo_defs)
  have g1: "generateContent scriptedService ?ai ?r1 ?s
              = (Rejects 40 (Error ''permission denied''), ?s1)"
    by (simp add: demo_defs)
  have t1: "withTimeout (Rejects 40 (Error ''permission denied'') :: response promise)
              VALIDATION_TIMEOUT_MS = Inl (Error ''permission denied'')"
    by (simp add: demo_defs)
  have a: "isModelAccessError (Error ''permission denied'')"
    by (rule demo_messages)
  have g2: "generateContent scriptedService ?ai ?r2 ?s1 = (Fulfils 30 emptyResponse, ?s2)"
    by (simp add: demo_defs)
  have t2: "withTimeout (Fulfils 30 emptyResponse) VALIDATION_TIMEOUT_MS = Inr emptyResponse"
    by (simp add: demo_defs)
  from validateApiKey_tier_fallback [OF k g1 t1 a g2 t2] a
  show ?thesis by simp
qed

section \<open>Image render\<close>

lemma generateContent_sent:
  "generateContent svc ai req s = (p, s') \<Longrightarrow> sent s' = sent s @ [(clientApiKey ai, req)]"
  by (auto simp: generateContent_def split: prod.splits)

text \<open>
  Claim C3. For every render call with the premium flag set and a resolvable credential:
  when the premium attempt fails with an access-class error or a timeout, exactly two
  requests are sent in all, the premium one and one retry; the retry names the standard
  image model and carries no \<open>imageSize\<close>; its outcome is read through the same
  deadline \<open>REQUEST_TIMEOUT_MS\<close> and decides the result without any further request.
\<close>

theorem generateStoryShot_premium_fallback:
  assumes "resolveApiKey apiKey e = Some k" and "k \<noteq> []"
    and "generateContent svc \<lparr>clientApiKey = k\<rparr>
           (primaryShotRequest prompt img True cfg) s = (p1, s1)"
    and "withTimeout p1 REQUEST_TIMEOUT_MS = Inl error"
    and "isModelAccessError error \<or> isTimeout error"
    and "generateContent svc \<lparr>clientApiKey = k\<rparr>
           (fallbackShotRequest prompt img cfg) s1 = (p2, s2)"
  shows "snd (generateStoryShot svc e prompt img True cfg apiKey s) = s2 \<and>
         sent s2 = sent s @ [(k, primaryShotRequest prompt img True cfg),
                             (k, fallbackShotRequest prompt img cfg)] \<and>
         model (fallbackShotRequest prompt img cfg) = IMAGE_MODELS_fallback \<and>
         config (fallbackShotRequest prompt img cfg)
           = ImageOutput \<lparr>aspectRatio = orDefault (configAspectRatio cfg) ''16:9'',
                          imageSize = None\<rparr> \<and>
         fst (generateStoryShot svc e prompt img True cfg apiKey s)
           = (case withTimeout p2 REQUEST_TIMEOUT_MS of
                Inl error2 \<Rightarrow> Inl error2
              | Inr fallbackResponse \<Rightarrow>
                  (case firstInlineImage (parts fallbackResponse) of
                     Some url \<Rightarrow> Inr url
                   | None \<Rightarrow> Inl (rethrowClassified (messageOf error))))"
proof -
  from assms(5) obtain msg where msg: "error = Error msg"
    by (cases error) (auto simp: isModelAccessError_def isTimeout_def TIMEOUT_ERROR_def
        js_includes_def toLowerCase_def)
  from assms(5) msg have cond: "isModelAccessError (Error msg) \<or> msg = ''REQUEST_TIMEOUT''"
    by (auto simp: isTimeout_def TIMEOUT_ERROR_def)
  have run: "generateStoryShot svc e prompt img True cfg apiKey s
      = (case withTimeout p2 REQUEST_TIMEOUT_MS of
                Inl error2 \<Rightarrow> (Inl error2, s2)
              | Inr fallbackResponse \<Rightarrow>
                  (case firstInlineImage (parts fallbackResponse) of
                     Some url \<Rightarrow> (Inr url, s2)
                   | None \<Rightarrow> (Inl (rethrowClassified msg), s2)))"
    using assms(1-4,6) msg cond by (simp add: generateStoryShot_def)
  have "sent s1 = sent s @ [(k, primaryShotRequest prompt img True cfg)]"
    using generateContent_sent [OF assms(3)] by simp
  moreover have "sent s2 = sent s1 @ [(k, fallbackShotRequest prompt img cfg)]"
    using generateContent_sent [OF assms(6)] by simp
  ultimately have sent: "sent s2 = sent s @ [(k, primaryShotRequest prompt img True cfg),
                             (k, fallbackShotRequest prompt img cfg)]"
    by simp
  from run have "snd (generateStoryShot svc e prompt img True cfg apiKey s) = s2"
    by (simp split: sum.splits option.splits)
  moreover from run msg have "fst (generateStoryShot svc e prompt img True cfg apiKey s)
           = (case withTimeout p2 REQUEST_TIMEOUT_MS of
                Inl error2 \<Rightarrow> Inl error2
              | Inr fallbackResponse \<Rightarrow>
                  (case firstInlineImage (parts fallbackResponse) of
                     Some url \<Rightarrow> Inr url
                   | None \<Rightarrow> Inl (rethrowClassified (messageOf error))))"
    by (simp split: sum.splits option.splits)
  ultimately show ?thesis
    using sent by (simp add: fallbackShotRequest_def)
qed

theorem generateStoryShot_premium_fallback_witness:
  "fst (generateStoryShot scriptedService noDefaultEnv ''a rainy street'' demoImage True
          demoConfig (Some ''user-key'') (demoNet [Pending, Fulfils 900 imageResponse]))
     = Inr ''data:image/png;base64,QUJD'' \<and>
   length (sent (snd (generateStoryShot scriptedService noDefaultEnv ''a rainy street''
          demoImage True demoConfig (Some ''user-key'')
          (demoNet [Pending, Fulfils 900 imageResponse])))) = 2"
proof -
  let ?ai = "\<lparr>clientApiKey = ''user-key''\<rparr>"
  let ?s = "demoNet [Pending, Fulfils 900 imageResponse]"
  let ?r1 = "primaryShotRequest ''a rainy street'' demoImage True demoConfig"
  let ?r2 = "fallbackShotRequest ''a rainy street'' demoImage demoConfig"
  let ?s1 = "snd (generateContent scriptedService ?ai ?r1 ?s)"
  let ?s2 = "snd (generateContent scriptedService ?ai ?r2 ?s1)"
  have k: "resolveApiKey (Some ''user-key'') noDefaultEnv = Some ''user-key''" "''user-key'' \<noteq> []"
    by (simp_all add: demo_defs)
  have g1: "generateContent scriptedService ?ai ?r1 ?s = (Pending, ?s1)"
    by (simp add: demo_defs)
  have t1: "withTimeout (Pending :: response promise) REQUEST_TIMEOUT_MS = Inl TIMEOUT_ERROR"
    by simp
  have c: "isModelAccessError TIMEOUT_ERROR \<or> isTimeout TIMEOUT_ERROR"
    by (simp add: isTimeout_def)
  have g2: "generateContent scriptedService ?ai ?r2 ?s1 = (Fulfils 900 imageResponse, ?s2)"
    by (simp add: demo_defs)
  from generateStoryShot_premium_fallback [OF k g1 t1 c g2]
  show ?thesis
    by (simp add: demo_defs imageResponse_def)
qed

text \<open>
  Claim C4, as stated, fails twice. A standard attempt that is the primary attempt and
  fails with the message \<open>entity was not found\<close> surfaces that error, not
  \<open>API_KEY_INVALID\<close>: the source looks for \<open>Requested entity was not found\<close>. And a
  standard attempt that is the fallback after a premium access-class failure surfaces
  its own error unclassified, whatever its message.
\<close>

theorem generateStoryShot_standard_failure_counterexample:
  "js_includes ''entity was not found'' ''entity was not found'' \<and>
   fst (generateStoryShot scriptedService noDefaultEnv ''a rainy street'' demoImage False
          demoConfig (Some ''user-key'') (demoNet [Rejects 300 (Error ''entity was not found'')]))
     = Inl (Error ''entity was not found'') \<and>
   js_includes ''Requested entity was not found.'' ''entity was not found'' \<and>
   fst (generateStoryShot scriptedService noDefaultEnv ''a rainy street'' demoImage True
          demoConfig (Some ''user-key'')
          (demoNet [Rejects 200 (Error ''permission denied''),
                    Rejects 300 (Error ''Requested entity was not found.'')]))
     = Inl (Error ''Requested entity was not found.'')"
  by (simp add: generateStoryShot_def demo_defs demo_messages rethrowClassified_def)

text \<open>
  Claim C4, amended. When premium is not requested and the standard image-model attempt
  fails with an error object, the surfaced error is \<open>API_KEY_INVALID\<close> if the failure's
  message contains \<open>Requested entity was not found\<close> (in this letter case), and
  otherwise is the underlying error itself.
\<close>

theorem generateStoryShot_standard_failure:
  assumes "resolveApiKey apiKey e = Some k" and "k \<noteq> []"
    and "generateContent svc \<lparr>clientApiKey = k\<rparr>
           (primaryShotRequest prompt img False cfg) s = (p1, s1)"
    and "withTimeout p1 REQUEST_TIMEOUT_MS = Inl (Error msg)"
  shows "model (primaryShotRequest prompt img False cfg) = IMAGE_MODELS_fallback \<and>
         generateStoryShot svc e prompt img False cfg apiKey s
           = (if js_includes msg ''Requested entity was not found''
              then Inl (Error ''API_KEY_INVALID'') else Inl (Error msg), s1)"
  using assms by (simp add: generateStoryShot_def rethrowClassified_def primaryShotRequest_def)

theorem generateStoryShot_standard_failure_witness:
  "generateStoryShot scriptedService noDefaultEnv ''a rainy street'' demoImage False
          demoConfig (Some ''user-key'')
          (demoNet [Rejects 300 (Error ''Requested entity was not found.'')])
     = (Inl (Error ''API_KEY_INVALID''),
        snd (generateContent scriptedService \<lparr>clientApiKey = ''user-key''\<rparr>
               (primaryShotRequest ''a rainy street'' demoImage False demoConfig)
               (demoNet [Rejects 300 (Error ''Requested entity was not found.'')])))"
proof -
  let ?ai = "\<lparr>clientApiKey = ''user-key''\<rparr>"
  let ?s = "demoNet [Rejects 300 (Error ''Requested entity was not found.'')]"
  let ?r1 = "primaryShotRequest ''a rainy street'' demoImage False demoConfig"
  let ?s1 = "snd (generateContent scriptedService ?ai ?r1 ?s)"
  have k: "resolveApiKey (Some ''user-key'') noDefaultEnv = Some ''user-key''" "''user-key'' \<noteq> []"
    by (simp_all add: demo_defs)
  have g1: "generateContent scriptedService ?ai ?r1 ?s
              = (Rejects 300 (Error ''Requested entity was not found.''), ?s1)"
    by (simp add: demo_defs)
  have t1: "withTimeout (Rejects 300 (Error ''Requested entity was not found.'') :: response promise)
              REQUEST_TIMEOUT_MS = Inl (Error ''Requested entity was not found.'')"
    by (simp add: demo_defs)
  from generateStoryShot_standard_failure [OF k g1 t1]
  show ?thesis
    by (simp add: demo_messages)
qed

section \<open>Plan generation: empty responses\<close>

lemma demo_getAI: "getAI (Some ''user-key'') noDefaultEnv = Inr \<lparr>clientApiKey = ''user-key''\<rparr>"
  by (simp add: getAI_def demo_defs)

lemma demo_category_run:
  "generateWithFallback \<lparr>clientApiKey = ''user-key''\<rparr> PLAN_MODELS
     (\<lambda>m. generateContent scriptedService \<lparr>clientApiKey = ''user-key''\<rparr>
            (categoryRequest demoImage m)) (demoNet [Fulfils 100 r])
   = (Inr r,
      \<lparr>world = [], sent = [(''user-key'', categoryRequest demoImage ''gemini-2.5-pro'')],
       console = []\<rparr>,
      [(''gemini-2.5-pro'', Inr r)])"
  by (simp add: generateWithFallback_def PLAN_MODELS_def scriptedService_def demoNet_def
      generateContent_def REQUEST_TIMEOUT_MS_def)

lemma demo_plan_run:
  "generateWithFallback \<lparr>clientApiKey = ''user-key''\<rparr> PLAN_MODELS
     (\<lambda>m. generateContent scriptedService \<lparr>clientApiKey = ''user-key''\<rparr>
            (planRequest demoImage Shorts None ZoomIn m)) (demoNet [Fulfils 100 r])
   = (Inr r,
      \<lparr>world = [],
       sent = [(''user-key'', planRequest demoImage Shorts None ZoomIn ''gemini-2.5-pro'')],
       console = []\<rparr>,
      [(''gemini-2.5-pro'', Inr r)])"
  by (simp add: generateWithFallback_def PLAN_MODELS_def scriptedService_def demoNet_def
      generateContent_def REQUEST_TIMEOUT_MS_def)

text \<open>
  Claim C7, as stated, fails for category suggestion: when the tiered request succeeds
  and the response has no text, \<open>suggestNarrativeCategories\<close> returns the default
  category list instead of failing.
\<close>

theorem suggestNarrativeCategories_counterexample:
  "fst (generateWithFallback \<lparr>clientApiKey = ''user-key''\<rparr> PLAN_MODELS
     (\<lambda>m. generateContent scriptedService \<lparr>clientApiKey = ''user-key''\<rparr>
            (categoryRequest demoImage m)) (demoNet [Fulfils 100 emptyResponse]))
     = Inr emptyResponse \<and>
   responseText emptyResponse = None \<and>
   fst (suggestNarrativeCategories scriptedService noDefaultEnv demoParse demoImage
          (Some ''user-key'') (demoNet [Fulfils 100 emptyResponse]))
     = Inr (JArray (map JString DEFAULT_CATEGORIES))"
  by (simp add: suggestNarrativeCategories_def demo_getAI demo_category_run emptyResponse_def)

text \<open>
  Claim C7, amended. For every plan-generation call (\<open>analyzeImageToStoryboardPlan\<close>):
  when the tiered request succeeds and the response text is empty or absent, the call
  fails with the error whose message is \<open>AI_RESPONSE_FAILED\<close> and returns no value.
\<close>

theorem analyzeImageToStoryboardPlan_empty:
  assumes "getAI apiKey e = Inr ai"
    and "generateWithFallback ai PLAN_MODELS
           (\<lambda>m. generateContent svc ai (planRequest img mode category zoomDirection m)) s
         = (Inr response, s', log)"
    and "falsy (responseText response)"
  shows "analyzeImageToStoryboardPlan svc e jsonParse img mode category zoomDirection apiKey s
           = (Inl (Error AI_RESPONSE_FAILED), s')"
  using assms by (cases "responseText response") (simp_all add: analyzeImageToStoryboardPlan_def)

theorem analyzeImageToStoryboardPlan_empty_witness:
  "falsy (responseText emptyResponse) \<and>
   fst (analyzeImageToStoryboardPlan scriptedService noDefaultEnv demoParse demoImage Shorts
          None ZoomIn (Some ''user-key'') (demoNet [Fulfils 100 emptyResponse]))
     = Inl (Error AI_RESPONSE_FAILED)"
proof -
  have f: "falsy (responseText emptyResponse)"
    by (simp add: emptyResponse_def)
  from analyzeImageToStoryboardPlan_empty [OF demo_getAI demo_plan_run f] f
  show ?thesis by simp
qed

text \<open>
  Claim C8. A category-suggestion call whose tiered request succeeds with an empty or
  absent response text returns the fixed default category list, which has five items,
  and does not fail.
\<close>

theorem suggestNarrativeCategories_empty:
  assumes "getAI apiKey e = Inr ai"
    and "generateWithFallback ai PLAN_MODELS
           (\<lambda>m. generateContent svc ai (categoryRequest img m)) s
         = (Inr response, s', log)"
    and "falsy (responseText response)"
  shows "suggestNarrativeCategories svc e jsonParse img apiKey s
           = (Inr (JArray (map JString DEFAULT_CATEGORIES)), s') \<and>
         length DEFAULT_CATEGORIES = 5"
  using assms
  by (cases "responseText response")
     (simp_all add: suggestNarrativeCategories_def DEFAULT_CATEGORIES_def)

theorem suggestNarrativeCategories_empty_witness:
  "falsy (responseText \<lparr>responseText = Some [], parts = []\<rparr>) \<and>
   fst (suggestNarrativeCategories scriptedService noDefaultEnv demoParse demoImage
          (Some ''user-key'')
          (demoNet [Fulfils 100 \<lparr>responseText = Some [], parts = []\<rparr>]))
     = Inr (JArray (map JString DEFAULT_CATEGORIES)) \<and>
   length DEFAULT_CATEGORIES = 5"
proof -
  have f: "falsy (responseText \<lparr>responseText = Some [], parts = []\<rparr>)"
    by simp
  from suggestNarrativeCategories_empty [OF demo_getAI demo_category_run f] f
  show ?thesis by simp
qed

section \<open>Empty credentials\<close>

lemma fallbackLoop_sent:
  assumes "fallbackLoop (\<lambda>m. generateContent svc ai (mk m)) ms lastError s log = (r, s', log')"
  shows "\<exists>n. n \<le> length ms \<and> (ms \<noteq> [] \<longrightarrow> 0 < n) \<and>
           sent s' = sent s @ map (\<lambda>m. (clientApiKey ai, mk m)) (take n ms)"
  using assms
proof (induction ms arbitrary: lastError s log)
  case Nil
  then show ?case by simp
next
  case (Cons m ms)
  obtain p s1 where g: "generateContent svc ai (mk m) s = (p, s1)"
    by (cases "generateContent svc ai (mk m) s")
  then have s1: "sent s1 = sent s @ [(clientApiKey ai, mk m)]"
    by (rule generateContent_sent)
  let ?one = "sent s @ map (\<lambda>m. (clientApiKey ai, mk m)) (take 1 (m # ms))"
  show ?case
  proof (cases "withTimeout p REQUEST_TIMEOUT_MS")
    case (Inr v)
    with Cons.prems g have "s' = s1" by auto
    with s1 have "sent s' = ?one" by simp
    then show ?thesis
      by (intro exI [of _ 1]) simp
  next
    case (Inl error)
    show ?thesis
    proof (cases "isModelAccessError error")
      case False
      with Cons.prems g Inl have "s' = s1" by auto
      with s1 have "sent s' = ?one" by simp
      then show ?thesis
        by (intro exI [of _ 1]) simp
    next
      case True
      with Cons.prems g Inl
      have "fallbackLoop (\<lambda>m. generateContent svc ai (mk m)) ms error s1
              (log @ [(m, Inl error)]) = (r, s', log')"
        by simp
      from Cons.IH [OF this] obtain n where
        n: "n \<le> length ms" "sent s' = sent s1 @ map (\<lambda>m. (clientApiKey ai, mk m)) (take n ms)"
        by blast
      with s1 have "sent s' = sent s @ map (\<lambda>m. (clientApiKey ai, mk m)) (take (Suc n) (m # ms))"
        by simp
      with n(1) show ?thesis
        by (intro exI [of _ "Suc n"]) simp
    qed
  qed
qed

lemma generateWithFallback_sent:
  assumes "generateWithFallback ai PLAN_MODELS (\<lambda>m. generateContent svc ai (mk m)) s = (r, s', log)"
  shows "\<exists>reqs. reqs \<noteq> [] \<and> sent s' = sent s @ map (Pair (clientApiKey ai)) reqs"
proof -
  from assms
  have "fallbackLoop (\<lambda>m. generateContent svc ai (mk m)) PLAN_MODELS Undefined s [] = (r, s', log)"
    by (simp add: generateWithFallback_def)
  from fallbackLoop_sent [OF this] obtain n where
    "PLAN_MODELS \<noteq> [] \<longrightarrow> 0 < n"
    and n2: "sent s' = sent s @ map (\<lambda>m. (clientApiKey ai, mk m)) (take n PLAN_MODELS)"
    by blast
  moreover have "PLAN_MODELS \<noteq> []"
    by (simp add: PLAN_MODELS_def)
  ultimately have n: "0 < n" "sent s' = sent s @ map (\<lambda>m. (clientApiKey ai, mk m)) (take n PLAN_MODELS)"
    by simp_all
  let ?reqs = "map mk (take n PLAN_MODELS)"
  from n(1) have "?reqs \<noteq> []" by (simp add: PLAN_MODELS_def)
  moreover from n(2) have "sent s' = sent s @ map (Pair (clientApiKey ai)) ?reqs"
    by (simp add: comp_def)
  ultimately show ?thesis by blast
qed

lemma resolveApiKey_empty: "resolveApiKey (Some []) e = resolveApiKey None e"
  by (simp add: resolveApiKey_def js_or_def)

lemma resolveApiKey_default: "resolveApiKey None e = js_or (API_KEY e) (GEMINI_API_KEY e)"
  by (simp add: resolveApiKey_def js_or_def)

lemma getAI_missing: "falsy (resolveApiKey apiKey e) \<Longrightarrow> getAI apiKey e = Inl (Error ''API_KEY_MISSING'')"
  by (cases "resolveApiKey apiKey e") (simp_all add: getAI_def)

lemma getAI_present:
  "resolveApiKey apiKey e = Some k \<Longrightarrow> k \<noteq> [] \<Longrightarrow> getAI apiKey e = Inr \<lparr>clientApiKey = k\<rparr>"
  by (simp add: getAI_def)

lemma validateApiKey_sent:
  assumes "resolveApiKey apiKey e = Some k" and "k \<noteq> []"
  shows "\<exists>reqs. reqs \<noteq> [] \<and>
           sent (snd (validateApiKey svc e apiKey s)) = sent s @ map (Pair k) reqs"
proof -
  let ?ai = "\<lparr>clientApiKey = k\<rparr>"
  obtain p1 s1 where g1: "generateContent svc ?ai (probeRequest (PLAN_MODELS ! 0)) s = (p1, s1)"
    by (cases "generateContent svc ?ai (probeRequest (PLAN_MODELS ! 0)) s")
  obtain p2 s2 where g2: "generateContent svc ?ai (probeRequest (PLAN_MODELS ! 1)) s1 = (p2, s2)"
    by (cases "generateContent svc ?ai (probeRequest (PLAN_MODELS ! 1)) s1")
  have s1: "sent s1 = sent s @ map (Pair k) [probeRequest (PLAN_MODELS ! 0)]"
    using generateContent_sent [OF g1] by simp
  have s2: "sent s2 = sent s @ map (Pair k) [probeRequest (PLAN_MODELS ! 0), probeRequest (PLAN_MODELS ! 1)]"
    using generateContent_sent [OF g2] s1 by simp
  have "sent (snd (validateApiKey svc e apiKey s)) = sent s1 \<or>
        sent (snd (validateApiKey svc e apiKey s)) = sent s2"
    using assms g1 g2 by (simp add: validateApiKey_def split: sum.splits)
  with s1 s2 show ?thesis by (metis list.distinct(1))
qed

lemma generateStoryShot_sent:
  assumes "resolveApiKey apiKey e = Some k" and "k \<noteq> []"
  shows "\<exists>reqs. reqs \<noteq> [] \<and>
           sent (snd (generateStoryShot svc e prompt img isPro cfg apiKey s))
             = sent s @ map (Pair k) reqs"
proof -
  let ?ai = "\<lparr>clientApiKey = k\<rparr>"
  let ?r1 = "primaryShotRequest prompt img isPro cfg"
  let ?r2 = "fallbackShotRequest prompt img cfg"
  obtain p1 s1 where g1: "generateContent svc ?ai ?r1 s = (p1, s1)"
    by (cases "generateContent svc ?ai ?r1 s")
  obtain p2 s2 where g2: "generateContent svc ?ai ?r2 s1 = (p2, s2)"
    by (cases "generateContent svc ?ai ?r2 s1")
  have s1: "sent s1 = sent s @ map (Pair k) [?r1]"
    using generateContent_sent [OF g1] by simp
  have s2: "sent s2 = sent s @ map (Pair k) [?r1, ?r2]"
    using generateContent_sent [OF g2] s1 by simp
  have "snd (generateStoryShot svc e prompt img isPro cfg apiKey s) = s1 \<or>
        snd (generateStoryShot svc e prompt img isPro cfg apiKey s) = s2"
    using assms g1 g2
    by (simp add: generateStoryShot_def split: sum.splits option.splits thrown.splits)
  with s1 s2 show ?thesis by (metis list.distinct(1))
qed

lemma suggestNarrativeCategories_sent:
  assumes "resolveApiKey apiKey e = Some k" and "k \<noteq> []"
  shows "\<exists>reqs. reqs \<noteq> [] \<and>
           sent (snd (suggestNarrativeCategories svc e jsonParse img apiKey s))
             = sent s @ map (Pair k) reqs"
proof -
  let ?ai = "\<lparr>clientApiKey = k\<rparr>"
  let ?f = "\<lambda>m. generateContent svc ?ai (categoryRequest img m)"
  obtain r s' log where run: "generateWithFallback ?ai PLAN_MODELS ?f s = (r, s', log)"
    by (cases "generateWithFallback ?ai PLAN_MODELS ?f s")
  from assms run have "snd (suggestNarrativeCategories svc e jsonParse img apiKey s) = s'"
    by (simp add: suggestNarrativeCategories_def getAI_present split: sum.splits option.splits)
  with generateWithFallback_sent [OF run] show ?thesis by simp
qed

lemma analyzeImageToStoryboardPlan_sent:
  assumes "resolveApiKey apiKey e = Some k" and "k \<noteq> []"
  shows "\<exists>reqs. reqs \<noteq> [] \<and>
           sent (snd (analyzeImageToStoryboardPlan svc e jsonParse img mode category
                        zoomDirection apiKey s))
             = sent s @ map (Pair k) reqs"
proof -
  let ?ai = "\<lparr>clientApiKey = k\<rparr>"
  let ?f = "\<lambda>m. generateContent svc ?ai (planRequest img mode category zoomDirection m)"
  obtain r s' log where run: "generateWithFallback ?ai PLAN_MODELS ?f s = (r, s', log)"
    by (cases "generateWithFallback ?ai PLAN_MODELS ?f s")
  from assms run
  have "snd (analyzeImageToStoryboardPlan svc e jsonParse img mode category
               zoomDirection apiKey s) = s'"
    by (simp add: analyzeImageToStoryboardPlan_def getAI_present split: sum.splits option.splits)
  with generateWithFallback_sent [OF run] show ?thesis by simp
qed

lemma updatePromptsWithEdits_sent:
  assumes "resolveApiKey apiKey e = Some k" and "k \<noteq> []"
  shows "\<exists>reqs. reqs \<noteq> [] \<and>
           sent (snd (updatePromptsWithEdits svc e jsonParse plan mode apiKey s))
             = sent s @ map (Pair k) reqs"
proof -
  let ?ai = "\<lparr>clientApiKey = k\<rparr>"
  let ?f = "\<lambda>m. generateContent svc ?ai (editRequest plan m)"
  obtain r s' log where run: "generateWithFallback ?ai PLAN_MODELS ?f s = (r, s', log)"
    by (cases "generateWithFallback ?ai PLAN_MODELS ?f s")
  from assms run
  have "snd (updatePromptsWithEdits svc e jsonParse plan mode apiKey s) = s'"
    by (simp add: updatePromptsWithEdits_def getAI_present split: sum.splits option.splits)
  with generateWithFallback_sent [OF run] show ?thesis by simp
qed

lemma empty_as_absent:
  "validateApiKey svc e (Some []) s = validateApiKey svc e None s"
  "suggestNarrativeCategories svc e jsonParse img (Some []) s
     = suggestNarrativeCategories svc e jsonParse img None s"
  "analyzeImageToStoryboardPlan svc e jsonParse img mode category zoomDirection (Some []) s
     = analyzeImageToStoryboardPlan svc e jsonParse img mode category zoomDirection None s"
  "updatePromptsWithEdits svc e jsonParse plan mode (Some []) s
     = updatePromptsWithEdits svc e jsonParse plan mode None s"
  "generateStoryShot svc e prompt img isPro cfg (Some []) s
     = generateStoryShot svc e prompt img isPro cfg None s"
  by (simp_all add: validateApiKey_def suggestNarrativeCategories_def
        analyzeImageToStoryboardPlan_def updatePromptsWithEdits_def generateStoryShot_def
        getAI_def resolveApiKey_empty)


lemma missing_path:
  assumes "falsy (js_or (API_KEY e) (GEMINI_API_KEY e))"
  shows "validateApiKey svc e (Some []) s = (\<lparr>valid = False, proAvailable = False\<rparr>, s) \<and>
      suggestNarrativeCategories svc e jsonParse img (Some []) s
        = (Inl (Error ''API_KEY_MISSING''), s) \<and>
      analyzeImageToStoryboardPlan svc e jsonParse img mode category zoomDirection (Some []) s
        = (Inl (Error ''API_KEY_MISSING''), s) \<and>
      updatePromptsWithEdits svc e jsonParse plan mode (Some []) s
        = (Inl (Error ''API_KEY_MISSING''), s) \<and>
      generateStoryShot svc e prompt img isPro cfg (Some []) s
        = (Inl (Error ''API_KEY_MISSING''), s)"
proof -
  have "resolveApiKey (Some []) e = js_or (API_KEY e) (GEMINI_API_KEY e)"
    by (simp add: resolveApiKey_empty resolveApiKey_default)
  with assms show ?thesis
    by (cases "js_or (API_KEY e) (GEMINI_API_KEY e)")
       (simp_all add: validateApiKey_def suggestNarrativeCategories_def
          analyzeImageToStoryboardPlan_def updatePromptsWithEdits_def generateStoryShot_def
          getAI_def)
qed

lemma default_path:
  assumes "\<not> falsy (js_or (API_KEY e) (GEMINI_API_KEY e))"
  shows "\<exists>k. js_or (API_KEY e) (GEMINI_API_KEY e) = Some k \<and>
        (\<exists>reqs. reqs \<noteq> [] \<and>
           sent (snd (validateApiKey svc e (Some []) s)) = sent s @ map (Pair k) reqs) \<and>
        (\<exists>reqs. reqs \<noteq> [] \<and>
           sent (snd (suggestNarrativeCategories svc e jsonParse img (Some []) s))
             = sent s @ map (Pair k) reqs) \<and>
        (\<exists>reqs. reqs \<noteq> [] \<and>
           sent (snd (analyzeImageToStoryboardPlan svc e jsonParse img mode category
                        zoomDirection (Some []) s))
             = sent s @ map (Pair k) reqs) \<and>
        (\<exists>reqs. reqs \<noteq> [] \<and>
           sent (snd (updatePromptsWithEdits svc e jsonParse plan mode (Some []) s))
             = sent s @ map (Pair k) reqs) \<and>
        (\<exists>reqs. reqs \<noteq> [] \<and>
           sent (snd (generateStoryShot svc e prompt img isPro cfg (Some []) s))
             = sent s @ map (Pair k) reqs)"
proof -
  from assms obtain k where k: "js_or (API_KEY e) (GEMINI_API_KEY e) = Some k" "k \<noteq> []"
    by (cases "js_or (API_KEY e) (GEMINI_API_KEY e)") simp_all
  then have rk: "resolveApiKey (Some []) e = Some k"
    by (simp add: resolveApiKey_empty resolveApiKey_default)
  show ?thesis
  proof (intro exI [of _ k] conjI)
    show "js_or (API_KEY e) (GEMINI_API_KEY e) = Some k" by (rule k(1))
    show "\<exists>reqs. reqs \<noteq> [] \<and>
           sent (snd (validateApiKey svc e (Some []) s)) = sent s @ map (Pair k) reqs"
      by (rule validateApiKey_sent [OF rk k(2)])
    show "\<exists>reqs. reqs \<noteq> [] \<and>
           sent (snd (suggestNarrativeCategories svc e jsonParse img (Some []) s))
             = sent s @ map (Pair k) reqs"
      by (rule suggestNarrativeCategories_sent [OF rk k(2)])
    show "\<exists>reqs. reqs \<noteq> [] \<and>
           sent (snd (analyzeImageToStoryboardPlan svc e jsonParse img mode category
                        zoomDirection (Some []) s))
             = sent s @ map (Pair k) reqs"
      by (rule analyzeImageToStoryboardPlan_sent [OF rk k(2)])
    show "\<exists>reqs. reqs \<noteq> [] \<and>
           sent (snd (updatePromptsWithEdits svc e jsonParse plan mode (Some []) s))
             = sent s @ map (Pair k) reqs"
      by (rule updatePromptsWithEdits_sent [OF rk k(2)])
    show "\<exists>reqs. reqs \<noteq> [] \<and>
           sent (snd (generateStoryShot svc e prompt img isPro cfg (Some []) s))
             = sent s @ map (Pair k) reqs"
      by (rule generateStoryShot_sent [OF rk k(2)])
  qed
qed

text \<open>
  Claim C10. For each of the five operations that take an optional credential, the
  empty string as explicit credential gives the same outcome as no credential. When
  the environment has no default key, the call takes the missing-credential path
  without sending a request: \<open>{valid: false, proAvailable: false}\<close> for the validator,
  an \<open>API_KEY_MISSING\<close> failure for the generators. When it has one, the call sends at
  least one request, and every request it sends carries the default key.
\<close>

theorem empty_credential_as_absent:
  "validateApiKey svc e (Some []) s = validateApiKey svc e None s \<and>
   suggestNarrativeCategories svc e jsonParse img (Some []) s
     = suggestNarrativeCategories svc e jsonParse img None s \<and>
   analyzeImageToStoryboardPlan svc e jsonParse img mode category zoomDirection (Some []) s
     = analyzeImageToStoryboardPlan svc e jsonParse img mode category zoomDirection None s \<and>
   updatePromptsWithEdits svc e jsonParse plan mode (Some []) s
     = updatePromptsWithEdits svc e jsonParse plan mode None s \<and>
   generateStoryShot svc e prompt img isPro cfg (Some []) s
     = generateStoryShot svc e prompt img isPro cfg None s \<and>
   (falsy (js_or (API_KEY e) (GEMINI_API_KEY e)) \<longrightarrow>
      validateApiKey svc e (Some []) s = (\<lparr>valid = False, proAvailable = False\<rparr>, s) \<and>
      suggestNarrativeCategories svc e jsonParse img (Some []) s
        = (Inl (Error ''API_KEY_MISSING''), s) \<and>
      analyzeImageToStoryboardPlan svc e jsonParse img mode category zoomDirection (Some []) s
        = (Inl (Error ''API_KEY_MISSING''), s) \<and>
      updatePromptsWithEdits svc e jsonParse plan mode (Some []) s
        = (Inl (Error ''API_KEY_MISSING''), s) \<and>
      generateStoryShot svc e prompt img isPro cfg (Some []) s
        = (Inl (Error ''API_KEY_MISSING''), s)) \<and>
   (\<not> falsy (js_or (API_KEY e) (GEMINI_API_KEY e)) \<longrightarrow>
      (\<exists>k. js_or (API_KEY e) (GEMINI_API_KEY e) = Some k \<and>
        (\<exists>reqs. reqs \<noteq> [] \<and>
           sent (snd (validateApiKey svc e (Some []) s)) = sent s @ map (Pair k) reqs) \<and>
        (\<exists>reqs. reqs \<noteq> [] \<and>
           sent (snd (suggestNarrativeCategories svc e jsonParse img (Some []) s))
             = sent s @ map (Pair k) reqs) \<and>
        (\<exists>reqs. reqs \<noteq> [] \<and>
           sent (snd (analyzeImageToStoryboardPlan svc e jsonParse img mode category
                        zoomDirection (Some []) s))
             = sent s @ map (Pair k) reqs) \<and>
        (\<exists>reqs. reqs \<noteq> [] \<and>
           sent (snd (updatePromptsWithEdits svc e jsonParse plan mode (Some []) s))
             = sent s @ map (Pair k) reqs) \<and>
        (\<exists>reqs. reqs \<noteq> [] \<and>
           sent (snd (generateStoryShot svc e prompt img isPro cfg (Some []) s))
             = sent s @ map (Pair k) reqs)))"
proof (intro conjI impI)
  show "validateApiKey svc e (Some []) s = validateApiKey svc e None s"
    by (rule empty_as_absent)
  show "suggestNarrativeCategories svc e jsonParse img (Some []) s
     = suggestNarrativeCategories svc e jsonParse img None s"
    by (rule empty_as_absent)
  show "analyzeImageToStoryboardPlan svc e jsonParse img mode category zoomDirection (Some []) s
     = analyzeImageToStoryboardPlan svc e jsonParse img mode category zoomDirection None s"
    by (rule empty_as_absent)
  show "updatePromptsWithEdits svc e jsonParse plan mode (Some []) s
     = updatePromptsWithEdits svc e jsonParse plan mode None s"
    by (rule empty_as_absent)
  show "generateStoryShot svc e prompt img isPro cfg (Some []) s
     = generateStoryShot svc e prompt img isPro cfg None s"
    by (rule empty_as_absent)
next
  assume none: "falsy (js_or (API_KEY e) (GEMINI_API_KEY e))"
  note m = missing_path [OF none, of svc s jsonParse img mode category zoomDirection plan
      prompt isPro cfg]
  from m show "validateApiKey svc e (Some []) s = (\<lparr>valid = False, proAvailable = False\<rparr>, s)"
    by (elim conjE)
  from m show "suggestNarrativeCategories svc e jsonParse img (Some []) s
        = (Inl (Error ''API_KEY_MISSING''), s)"
    by (elim conjE)
  from m show "analyzeImageToStoryboardPlan svc e jsonParse img mode category zoomDirection
        (Some []) s = (Inl (Error ''API_KEY_MISSING''), s)"
    by (elim conjE)
  from m show "updatePromptsWithEdits svc e jsonParse plan mode (Some []) s
        = (Inl (Error ''API_KEY_MISSING''), s)"
    by (elim conjE)
  from m show "generateStoryShot svc e prompt img isPro cfg (Some []) s
        = (Inl (Error ''API_KEY_MISSING''), s)"
    by (elim conjE)
next
  assume "\<not> falsy (js_or (API_KEY e) (GEMINI_API_KEY e))"
  then show "\<exists>k. js_or (API_KEY e) (GEMINI_API_KEY e) = Some k \<and>
        (\<exists>reqs. reqs \<noteq> [] \<and>
           sent (snd (validateApiKey svc e (Some []) s)) = sent s @ map (Pair k) reqs) \<and>
        (\<exists>reqs. reqs \<noteq> [] \<and>
           sent (snd (suggestNarrativeCategories svc e jsonParse img (Some []) s))
             = sent s @ map (Pair k) reqs) \<and>
        (\<exists>reqs. reqs \<noteq> [] \<and>
           sent (snd (analyzeImageToStoryboardPlan svc e jsonParse img mode category
                        zoomDirection (Some []) s))
             = sent s @ map (Pair k) reqs) \<and>
        (\<exists>reqs. reqs \<noteq> [] \<and>
           sent (snd (updatePromptsWithEdits svc e jsonParse plan mode (Some []) s))
             = sent s @ map (Pair k) reqs) \<and>
        (\<exists>reqs. reqs \<noteq> [] \<and>
           sent (snd (generateStoryShot svc e prompt img isPro cfg (Some []) s))
             = sent s @ map (Pair k) reqs)"
    by (rule default_path)
qed

theorem empty_credential_as_absent_witness:
  "\<not> falsy (js_or (API_KEY defaultEnv) (GEMINI_API_KEY defaultEnv)) \<and>
   (\<exists>reqs. reqs \<noteq> [] \<and>
      sent (snd (generateStoryShot scriptedService defaultEnv ''a rainy street'' demoImage
                   False demoConfig (Some []) (demoNet [Fulfils 900 imageResponse])))
        = map (Pair ''env-key'') reqs) \<and>
   falsy (js_or (API_KEY noDefaultEnv) (GEMINI_API_KEY noDefaultEnv)) \<and>
   generateStoryShot scriptedService noDefaultEnv ''a rainy street'' demoImage
       False demoConfig (Some []) (demoNet [Fulfils 900 imageResponse])
     = (Inl (Error ''API_KEY_MISSING''), demoNet [Fulfils 900 imageResponse]) \<and>
   validateApiKey scriptedService noDefaultEnv (Some []) (demoNet [Fulfils 900 imageResponse])
     = (\<lparr>valid = False, proAvailable = False\<rparr>, demoNet [Fulfils 900 imageResponse])"
proof -
  have d: "\<not> falsy (js_or (API_KEY defaultEnv) (GEMINI_API_KEY defaultEnv))"
    "js_or (API_KEY defaultEnv) (GEMINI_API_KEY defaultEnv) = Some ''env-key''"
    by (simp_all add: defaultEnv_def js_or_def)
  have n: "falsy (js_or (API_KEY noDefaultEnv) (GEMINI_API_KEY noDefaultEnv))"
    by (simp add: noDefaultEnv_def js_or_def)
  have s0: "sent (demoNet [Fulfils 900 imageResponse]) = []"
    by (simp add: demoNet_def)
  from empty_credential_as_absent [of scriptedService defaultEnv
      "demoNet [Fulfils 900 imageResponse]" demoParse demoImage Shorts None ZoomIn
      demoPlan "''a rainy street''" False demoConfig] d(1)
  obtain k where "js_or (API_KEY defaultEnv) (GEMINI_API_KEY defaultEnv) = Some k"
    and "\<exists>reqs. reqs \<noteq> [] \<and>
      sent (snd (generateStoryShot scriptedService defaultEnv ''a rainy street'' demoImage
                   False demoConfig (Some []) (demoNet [Fulfils 900 imageResponse])))
        = sent (demoNet [Fulfils 900 imageResponse]) @ map (Pair k) reqs"
    by blast
  with d(2) s0
  have "\<exists>reqs. reqs \<noteq> [] \<and>
      sent (snd (generateStoryShot scriptedService defaultEnv ''a rainy street'' demoImage
                   False demoConfig (Some []) (demoNet [Fulfils 900 imageResponse])))
        = map (Pair ''env-key'') reqs"
    by simp
  moreover
  from empty_credential_as_absent [of scriptedService noDefaultEnv
      "demoNet [Fulfils 900 imageResponse]" demoParse demoImage Shorts None ZoomIn
      demoPlan "''a rainy street''" False demoConfig] n
  have "generateStoryShot scriptedService noDefaultEnv ''a rainy street'' demoImage
       False demoConfig (Some []) (demoNet [Fulfils 900 imageResponse])
     = (Inl (Error ''API_KEY_MISSING''), demoNet [Fulfils 900 imageResponse]) \<and>
   validateApiKey scriptedService noDefaultEnv (Some []) (demoNet [Fulfils 900 imageResponse])
     = (\<lparr>valid = False, proAvailable = False\<rparr>, demoNet [Fulfils 900 imageResponse])"
    by blast
  ultimately show ?thesis
    using d(1) n by blast
qed

end
